theory Spec2Isabelle
  imports Complex_Main "HOL-Library.Sublist" "HOL-Library.Monad_Syntax"
begin

section \<open>Python values\<close>

text \<open>
  The client handles decoded JSON: every protocol message, event payload and frame tree
  is a \<^verbatim>\<open>dict[str, Any]\<close>. A dictionary is an association list read with
  \<open>map_of\<close>. A JSON number is an integer (\<open>JInt\<close>) or a float, kept as the
  rational it denotes (\<open>JFloat\<close>); NaN and the infinities are not represented.
\<close>

datatype json =
    JNull
  | JBool bool
  | JInt int
  | JFloat rat
  | JStr string
  | JArr "json list"
  | JObj "(string \<times> json) list"

text \<open>\<^verbatim>\<open>d.get(k, default)\<close> on a dictionary.\<close>

definition dict_get :: "(string \<times> json) list \<Rightarrow> string \<Rightarrow> json \<Rightarrow> json" where
  "dict_get d k dflt = (case map_of d k of None \<Rightarrow> dflt | Some v \<Rightarrow> v)"

text \<open>
  Calling \<^verbatim>\<open>.get\<close> on a value needs that value to be a dictionary; on anything else
  Python raises AttributeError. In the functions over payloads below, the outcome \<open>None\<close>
  says that the call raised, or that the payload lies outside what is modelled; the
  second is said wherever it happens.
\<close>

fun as_dict :: "json \<Rightarrow> (string \<times> json) list option" where
  "as_dict (JObj d) = Some d"
| "as_dict _ = None"

text \<open>Python truthiness of an optional string: \<^verbatim>\<open>None\<close> and \<^verbatim>\<open>""\<close> are falsy.\<close>

fun truthy :: "string option \<Rightarrow> bool" where
  "truthy None = False"
| "truthy (Some s) = (s \<noteq> [])"

section \<open>Errors\<close>

text \<open>
  The exception classes of \<^verbatim>\<open>devlogd.core.exceptions\<close> that the client raises, without
  their message texts; \<open>CDPProtocolError\<close> keeps the code and message taken from the
  reply. \<open>IndexError\<close> is Python's own, \<open>CancelledError\<close> is asyncio's, and
  \<open>PythonError\<close> stands for the other exceptions of the language (AttributeError,
  TypeError), which no claim tells apart.
\<close>

datatype error =
    CDPConnectionError
  | CDPProtocolError json json
  | TargetNotFoundError
  | IndexError
  | CancelledError
  | PythonError

section \<open>Target directory\<close>

record cdp_target =
  t_id :: string
  t_title :: string
  t_url :: string
  target_type :: string
  websocket_url :: string

text \<open>
  \<^verbatim>\<open>for t in xs: if P(t): return t\<close>: the first element that satisfies the test, if any.
\<close>

fun first_where :: "('a \<Rightarrow> bool) \<Rightarrow> 'a list \<Rightarrow> 'a option" where
  "first_where P [] = None"
| "first_where P (t # ts) = (if P t then Some t else first_where P ts)"

text \<open>
  \<^verbatim>\<open>CDPClient.find_target\<close>. The HTTP listing (\<^verbatim>\<open>list_targets\<close>) is the transport's:
  its outcome is the argument \<open>listing\<close>, an error or the targets in the order listed.
  \<^verbatim>\<open>url_filter in t.url\<close> is the contiguous-substring test \<open>sublist\<close>.
\<close>

definition find_target ::
  "error + cdp_target list \<Rightarrow> string option \<Rightarrow> string option \<Rightarrow> string option
     \<Rightarrow> error + cdp_target" where
  "find_target listing target_id url_filter title_filter =
    (case listing of
       Inl e \<Rightarrow> Inl e
     | Inr targets \<Rightarrow>
        if targets = [] then Inl TargetNotFoundError
        else if truthy target_id then
          (case first_where (\<lambda>t. t_id t = the target_id) targets of
             Some t \<Rightarrow> Inr t
           | None \<Rightarrow> Inl TargetNotFoundError)
        else
          let page_targets = filter (\<lambda>t. target_type t = ''page'') targets in
          if truthy url_filter then
            (case first_where (\<lambda>t. sublist (the url_filter) (t_url t)) page_targets of
               Some t \<Rightarrow> Inr t
             | None \<Rightarrow> Inl TargetNotFoundError)
          else if truthy title_filter then
            (case first_where (\<lambda>t. sublist (the title_filter) (t_title t)) page_targets of
               Some t \<Rightarrow> Inr t
             | None \<Rightarrow> Inl TargetNotFoundError)
          else if page_targets \<noteq> [] then Inr (hd page_targets)
          else Inr (hd targets))"

text \<open>The two-target directory of the specification's example.\<close>

definition example_directory :: "cdp_target list" where
  "example_directory =
    [\<lparr>t_id = ''a'', t_title = '''', t_url = ''http://x/foo'', target_type = ''page'',
       websocket_url = ''ws://x/a''\<rparr>,
     \<lparr>t_id = ''b'', t_title = '''', t_url = ''http://y'', target_type = ''worker'',
       websocket_url = ''ws://y/b''\<rparr>]"

section \<open>Frame tree and iframe resolution\<close>

text \<open>A member of a dictionary is smaller than the dictionary: the recursion ends.\<close>

lemma map_of_size_less: "map_of d k = Some v \<Longrightarrow> size v < size (JObj d)"
  by (induction d) (auto split: if_splits)

text \<open>
  \<^verbatim>\<open>CDPClient._collect_child_frames\<close>: for each child of the tree, in order, append the
  child's frame and then the frames below the child. The source appends to a list passed
  in; the model returns the frames appended. \<open>None\<close> is a raised exception: the tree or
  a child is not a dictionary (\<^verbatim>\<open>.get\<close> raises AttributeError), or \<^verbatim>\<open>childFrames\<close>
  is not iterable (TypeError). Iterating an empty dictionary or an empty string runs the
  loop body no time; iterating a non-empty one yields strings, and \<^verbatim>\<open>child.get\<close> raises
  on the first.
\<close>

function collect_child_frames :: "json \<Rightarrow> json list option"
  and collect_children :: "json list \<Rightarrow> json list option" where
  "collect_child_frames (JObj frame_tree) =
     (case dict_get frame_tree ''childFrames'' (JArr []) of
        JArr children \<Rightarrow> collect_children children
      | JObj [] \<Rightarrow> Some []
      | JStr [] \<Rightarrow> Some []
      | _ \<Rightarrow> None)"
| "collect_child_frames JNull = None"
| "collect_child_frames (JBool b) = None"
| "collect_child_frames (JInt n) = None"
| "collect_child_frames (JFloat q) = None"
| "collect_child_frames (JStr s) = None"
| "collect_child_frames (JArr xs) = None"
| "collect_children [] = Some []"
| "collect_children (child # rest) =
     (case as_dict child of
        None \<Rightarrow> None
      | Some c \<Rightarrow>
          (case collect_child_frames child of
             None \<Rightarrow> None
           | Some below \<Rightarrow>
               (case collect_children rest of
                  None \<Rightarrow> None
                | Some after \<Rightarrow> Some (dict_get c ''frame'' (JObj []) # below @ after))))"
  by pat_completeness auto

termination
  apply (relation "measure (\<lambda>x. case x of Inl t \<Rightarrow> 2 * size t
                                        | Inr ts \<Rightarrow> 2 * size_list size ts + 1)")
    apply (auto simp: dict_get_def split: option.splits dest!: map_of_size_less)
  done

text \<open>
  \<^verbatim>\<open>needle in v\<close> for a string \<open>needle\<close>: substring of a string, element of a list,
  key of a dictionary; TypeError (\<open>None\<close>) on a value that is no container.
\<close>

fun py_contains :: "string \<Rightarrow> json \<Rightarrow> bool option" where
  "py_contains needle (JStr s) = Some (sublist needle s)"
| "py_contains needle (JArr xs) = Some (JStr needle \<in> set xs)"
| "py_contains needle (JObj d) = Some (needle \<in> fst ` set d)"
| "py_contains needle _ = None"

text \<open>\<^verbatim>\<open>xs[i]\<close>: a negative index counts from the end; outside both ends IndexError.\<close>

definition list_item :: "'a list \<Rightarrow> int \<Rightarrow> error + 'a" where
  "list_item xs i =
     (if i < - int (length xs) \<or> int (length xs) \<le> i then Inl IndexError
      else Inr (xs ! nat (if i < 0 then int (length xs) + i else i)))"

text \<open>\<^verbatim>\<open>frame.get("id")\<close>; Python's \<^verbatim>\<open>None\<close> for a missing key is \<open>JNull\<close>.\<close>

definition frame_id_of :: "json \<Rightarrow> error + json" where
  "frame_id_of frame =
     (case as_dict frame of None \<Rightarrow> Inl PythonError | Some d \<Rightarrow> Inr (dict_get d ''id'' JNull))"

text \<open>
  The loop \<^verbatim>\<open>for frame in iframe_frames: if url_filter in frame.get("url", ""): return
  frame.get("id")\<close>, falling out of the loop to \<^verbatim>\<open>return None\<close>.
\<close>

fun first_frame_with_url :: "string \<Rightarrow> json list \<Rightarrow> error + json" where
  "first_frame_with_url url_filter [] = Inr JNull"
| "first_frame_with_url url_filter (frame # rest) =
     (case as_dict frame of
        None \<Rightarrow> Inl PythonError
      | Some d \<Rightarrow>
          (case py_contains url_filter (dict_get d ''url'' (JStr [])) of
             None \<Rightarrow> Inl PythonError
           | Some True \<Rightarrow> Inr (dict_get d ''id'' JNull)
           | Some False \<Rightarrow> first_frame_with_url url_filter rest))"

text \<open>
  \<^verbatim>\<open>CDPClient.find_iframe_context\<close>. The outcome of the \<^verbatim>\<open>Page.getFrameTree\<close> command
  is the argument \<open>reply\<close>. The result \<open>Inr JNull\<close> is the source's \<^verbatim>\<open>return None\<close>.
\<close>

definition find_iframe_context :: "error + json \<Rightarrow> string option \<Rightarrow> int \<Rightarrow> error + json" where
  "find_iframe_context reply url_filter index =
     (case reply of
        Inl e \<Rightarrow> Inl e
      | Inr result \<Rightarrow>
          (case as_dict result of
             None \<Rightarrow> Inl PythonError
           | Some r \<Rightarrow>
               (case collect_child_frames (dict_get r ''frameTree'' (JObj [])) of
                  None \<Rightarrow> Inl PythonError
                | Some iframe_frames \<Rightarrow>
                    if truthy url_filter then first_frame_with_url (the url_filter) iframe_frames
                    else if index < int (length iframe_frames) then
                      (case list_item iframe_frames index of
                         Inl e \<Rightarrow> Inl e
                       | Inr frame \<Rightarrow> frame_id_of frame)
                    else Inr JNull)))"

text \<open>The tree root \<open>\<rightarrow>\<close> [childA, childB \<open>\<rightarrow>\<close> [grandchild]] of the specification.\<close>

definition frame_node :: "string \<Rightarrow> string \<Rightarrow> json list \<Rightarrow> json" where
  "frame_node fid furl children =
     JObj [(''frame'', JObj [(''id'', JStr fid), (''url'', JStr furl)]),
           (''childFrames'', JArr children)]"

definition example_frame_tree :: json where
  "example_frame_tree =
     frame_node ''root'' ''http://x/'' 
       [frame_node ''childA'' ''http://x/a'' [],
        frame_node ''childB'' ''http://x/b'' [frame_node ''grandchild'' ''http://x/b/g'' []]]"

text \<open>A page without iframes: the root frame alone.\<close>

definition lone_frame_tree :: json where
  "lone_frame_tree = JObj [(''frame'', JObj [(''id'', JStr ''root''), (''url'', JStr ''http://x/'')])]"

section \<open>Session\<close>

text \<open>
  The state of a \<^verbatim>\<open>CDPClient\<close>. \<open>ws\<close> tells whether \<^verbatim>\<open>self._ws\<close> holds a channel.
  An \<^verbatim>\<open>asyncio.Future\<close> is an object shared by the pending table and by the
  \<^verbatim>\<open>send_command\<close> call that awaits it, so the futures live in a store (\<open>futures\<close>,
  addressed by position) and \<open>pending_commands\<close> maps a message id to an address.
  \<open>outbox\<close> lists the messages written to the channel, oldest first; serialising them
  is the transport's. \<open>recv_task\<close> is \<^verbatim>\<open>self._recv_task\<close>: no task, a task whose loop
  runs, or a task whose loop has returned.
\<close>

datatype future = Waiting | Result json | Exception error | Cancelled

datatype task = Running | Finished

record session =
  ws :: bool
  message_id :: int
  pending_commands :: "int \<rightharpoonup> nat"
  futures :: "future list"
  event_queue :: "json list"
  recv_task :: "task option"
  current_target :: "cdp_target option"
  outbox :: "json list"

text \<open>\<^verbatim>\<open>CDPClient.__init__\<close>.\<close>

definition new_session :: session where
  "new_session =
     \<lparr>ws = False, message_id = 0, pending_commands = Map.empty, futures = [],
      event_queue = [], recv_task = None, current_target = None, outbox = []\<rparr>"

text \<open>
  \<^verbatim>\<open>CDPClient.connect\<close>; \<open>opened\<close> tells whether \<^verbatim>\<open>websockets.connect\<close> succeeded. The
  new task's loop first tests \<^verbatim>\<open>self._ws\<close>, which \<^verbatim>\<open>connect\<close> has just set.
\<close>

definition connect :: "session \<Rightarrow> cdp_target \<Rightarrow> bool \<Rightarrow> session \<times> (error + unit)" where
  "connect s target opened =
     (if opened
      then (s\<lparr>ws := True, current_target := Some target, recv_task := Some Running\<rparr>, Inr ())
      else (s, Inl CDPConnectionError))"

text \<open>
  \<^verbatim>\<open>CDPClient.disconnect\<close>: cancel and drop the receive task, close and drop the channel,
  forget the target, and \<^verbatim>\<open>self._pending_commands.clear()\<close>. Clearing the dictionary
  drops its references to the futures; it calls no method of a future.
\<close>

definition disconnect :: "session \<Rightarrow> session" where
  "disconnect s =
     s\<lparr>recv_task := None, ws := False, current_target := None, pending_commands := Map.empty\<rparr>"

text \<open>
  \<^verbatim>\<open>CDPClient.send_command\<close> up to its \<^verbatim>\<open>await asyncio.wait_for\<close>: the connection test, the
  next message id, the message (with \<^verbatim>\<open>params\<close> only when they are truthy, that is
  neither \<^verbatim>\<open>None\<close> nor empty), a fresh future registered under the id, and the write to
  the channel, which is taken to succeed. The result names the id and the future's address.
\<close>

definition send_command_begin ::
  "session \<Rightarrow> string \<Rightarrow> (string \<times> json) list option \<Rightarrow> session \<times> (error + int \<times> nat)" where
  "send_command_begin s method params =
     (if \<not> ws s then (s, Inl CDPConnectionError)
      else
        let msg_id = message_id s + 1;
            message = JObj ([(''id'', JInt msg_id), (''method'', JStr method)] @
                            (case params of
                               None \<Rightarrow> []
                             | Some ps \<Rightarrow> if ps = [] then [] else [(''params'', JObj ps)]));
            future = length (futures s)
        in (s\<lparr>message_id := msg_id,
               futures := futures s @ [Waiting],
               pending_commands := (pending_commands s)(msg_id \<mapsto> future),
               outbox := outbox s @ [message]\<rparr>,
            Inr (msg_id, future)))"

text \<open>
  The rest of \<^verbatim>\<open>send_command\<close>: \<^verbatim>\<open>await asyncio.wait_for(future, timeout=30.0)\<close>. The
  clock is not modelled: \<open>elapsed\<close> tells whether the 30 seconds have passed when the
  call is looked at. A future with a result returns it, a future with an exception raises
  it; on a waiting future \<^verbatim>\<open>wait_for\<close> goes on waiting (\<open>None\<close>) until the time has
  passed, then cancels the future and raises TimeoutError, and the handler removes the
  pending entry and raises CDPConnectionError.
\<close>

definition send_command_wait ::
  "session \<Rightarrow> int \<Rightarrow> nat \<Rightarrow> bool \<Rightarrow> (session \<times> (error + json)) option" where
  "send_command_wait s msg_id future elapsed =
     (case futures s ! future of
        Result r \<Rightarrow> Some (s, Inr r)
      | Exception e \<Rightarrow> Some (s, Inl e)
      | Cancelled \<Rightarrow> Some (s, Inl CancelledError)
      | Waiting \<Rightarrow>
          if elapsed
          then Some (s\<lparr>futures := (futures s)[future := Cancelled],
                       pending_commands := (pending_commands s)(msg_id := None)\<rparr>,
                     Inl CDPConnectionError)
          else None)"

text \<open>
  A frame read from the channel: text that \<^verbatim>\<open>json.loads\<close> decodes to a value, or
  bytes or text that it does not decode (the decoder raises).
\<close>

datatype incoming = Text json | Undecodable

text \<open>
  The key a decoded \<^verbatim>\<open>id\<close> addresses in a dictionary keyed by integers: Python compares
  and hashes \<^verbatim>\<open>True\<close> as 1, \<^verbatim>\<open>False\<close> as 0 and a float as the integer it equals; a
  string or \<^verbatim>\<open>None\<close> equals no integer (\<open>Some None\<close>); a list or a dictionary is
  unhashable, and \<^verbatim>\<open>pop\<close> raises TypeError (\<open>None\<close>).
\<close>

fun pending_key :: "json \<Rightarrow> int option option" where
  "pending_key (JInt n) = Some (Some n)"
| "pending_key (JBool b) = Some (Some (if b then 1 else 0))"
| "pending_key (JFloat q) = Some (if of_int \<lfloor>q\<rfloor> = q then Some \<lfloor>q\<rfloor> else None)"
| "pending_key (JStr s) = Some None"
| "pending_key JNull = Some None"
| "pending_key (JArr xs) = None"
| "pending_key (JObj d) = None"

text \<open>
  One turn of the loop of \<^verbatim>\<open>CDPClient._receive_loop\<close>; the boolean tells whether the
  loop goes on. Any exception inside the loop is caught outside it, so it ends the loop:
  an undecodable frame, a value on which \<^verbatim>\<open>"id" in message\<close> or \<^verbatim>\<open>message["id"]\<close>
  raises, an unhashable id, or an \<^verbatim>\<open>error\<close> member without \<^verbatim>\<open>.get\<close>. A message with an
  \<^verbatim>\<open>id\<close> removes the pending entry of that id, completes its future if there is one and
  it is not done, and is not queued; a message without \<^verbatim>\<open>id\<close> is queued.
\<close>

definition receive_one :: "session \<Rightarrow> incoming \<Rightarrow> session \<times> bool" where
  "receive_one s frame =
     (case frame of
        Undecodable \<Rightarrow> (s, False)
      | Text message \<Rightarrow>
          (case py_contains ''id'' message of
             None \<Rightarrow> (s, False)
           | Some False \<Rightarrow> (s\<lparr>event_queue := event_queue s @ [message]\<rparr>, True)
           | Some True \<Rightarrow>
               (case as_dict message of
                  None \<Rightarrow> (s, False)
                | Some d \<Rightarrow>
                    (case pending_key (dict_get d ''id'' JNull) of
                       None \<Rightarrow> (s, False)
                     | Some None \<Rightarrow> (s, True)
                     | Some (Some msg_id) \<Rightarrow>
                         let s1 = s\<lparr>pending_commands := (pending_commands s)(msg_id := None)\<rparr> in
                         (case pending_commands s msg_id of
                            None \<Rightarrow> (s1, True)
                          | Some future \<Rightarrow>
                              if futures s ! future \<noteq> Waiting then (s1, True)
                              else
                                (case map_of d ''error'' of
                                   None \<Rightarrow>
                                     (s1\<lparr>futures := (futures s)
                                            [future := Result (dict_get d ''result'' (JObj []))]\<rparr>,
                                      True)
                                 | Some err \<Rightarrow>
                                     (case as_dict err of
                                        None \<Rightarrow> (s1, False)
                                      | Some e \<Rightarrow>
                                          (s1\<lparr>futures := (futures s)
                                                 [future := Exception
                                                    (CDPProtocolError
                                                       (dict_get e ''code'' (JInt (- 1)))
                                                       (dict_get e ''message'' (JStr [])))]\<rparr>,
                                           True))))))))"

text \<open>
  The loop as a whole, over the frames the channel delivers: it runs while the task runs,
  and a turn that raises finishes the task.
\<close>

definition receive_step :: "session \<Rightarrow> incoming \<Rightarrow> session" where
  "receive_step s frame =
     (if recv_task s \<noteq> Some Running then s
      else case receive_one s frame of
             (s', True) \<Rightarrow> s'
           | (s', False) \<Rightarrow> s'\<lparr>recv_task := Some Finished\<rparr>)"

definition receive_loop :: "session \<Rightarrow> incoming list \<Rightarrow> session" where
  "receive_loop s frames = foldl receive_step s frames"

text \<open>
  \<^verbatim>\<open>CDPClient.stream_events\<close> run until \<^verbatim>\<open>self._event_queue.get()\<close> finds the queue
  empty: the events yielded, first in first out, and the session left behind.
\<close>

definition stream_events :: "session \<Rightarrow> json list \<times> session" where
  "stream_events s = (event_queue s, s\<lparr>event_queue := []\<rparr>)"

text \<open>What can happen to a session, one step at a time.\<close>

datatype action =
    Connect cdp_target bool
  | Send string "(string \<times> json) list option"
  | Receive incoming
  | Wait int nat bool
  | Consume
  | Disconnect

fun step :: "session \<Rightarrow> action \<Rightarrow> session" where
  "step s (Connect target opened) = fst (connect s target opened)"
| "step s (Send method params) = fst (send_command_begin s method params)"
| "step s (Receive frame) = receive_step s frame"
| "step s (Wait msg_id future elapsed) =
     (case send_command_wait s msg_id future elapsed of None \<Rightarrow> s | Some (s', r) \<Rightarrow> s')"
| "step s Consume = snd (stream_events s)"
| "step s Disconnect = disconnect s"

definition run :: "session \<Rightarrow> action list \<Rightarrow> session" where
  "run s actions = foldl step s actions"

text \<open>A connected session on which nothing has been sent.\<close>

definition connected_session :: session where
  "connected_session = fst (connect new_session (hd example_directory) True)"

text \<open>
  The connected session after \<^verbatim>\<open>send_command("Page.enable")\<close> has registered request 1
  with the future at address 0, and that session after the reply to request 1 has come.
\<close>

definition awaiting_session :: session where
  "awaiting_session = fst (send_command_begin connected_session ''Page.enable'' None)"

definition answered_session :: session where
  "answered_session =
     receive_step awaiting_session (Text (JObj [(''id'', JInt 1), (''result'', JObj [])]))"

text \<open>
  Frames as the protocol sends them: a JSON object whose \<^verbatim>\<open>id\<close>, if it has one, is
  hashable, and whose \<^verbatim>\<open>error\<close>, if a reply has one, is an object. On such frames no
  turn of the receive loop raises.
\<close>

definition well_formed_frame :: "incoming \<Rightarrow> bool" where
  "well_formed_frame frame =
     (case frame of
        Undecodable \<Rightarrow> False
      | Text message \<Rightarrow>
          (case as_dict message of
             None \<Rightarrow> False
           | Some d \<Rightarrow>
               (case map_of d ''id'' of
                  None \<Rightarrow> True
                | Some i \<Rightarrow>
                    pending_key i \<noteq> None \<and>
                    (case map_of d ''error'' of None \<Rightarrow> True | Some e \<Rightarrow> as_dict e \<noteq> None))))"

text \<open>The decoded messages without an \<^verbatim>\<open>id\<close> member, in arrival order.\<close>

definition events_of :: "incoming list \<Rightarrow> json list" where
  "events_of frames = [m. Text m \<leftarrow> frames, py_contains ''id'' m = Some False]"

section \<open>Log events\<close>

text \<open>Python truthiness of a decoded value, as in \<^verbatim>\<open>if call_frames:\<close>.\<close>

fun py_truthy :: "json \<Rightarrow> bool" where
  "py_truthy JNull = False"
| "py_truthy (JBool b) = b"
| "py_truthy (JInt n) = (n \<noteq> 0)"
| "py_truthy (JFloat q) = (q \<noteq> 0)"
| "py_truthy (JStr s) = (s \<noteq> [])"
| "py_truthy (JArr xs) = (xs \<noteq> [])"
| "py_truthy (JObj d) = (d \<noteq> [])"

text \<open>
  What pydantic accepts for a field when a model is built. A \<^verbatim>\<open>str\<close> field takes a
  string only, and \<^verbatim>\<open>str | None\<close> also \<^verbatim>\<open>None\<close>; anything else raises ValidationError.
  For an \<^verbatim>\<open>int\<close> field the model covers integers (and \<^verbatim>\<open>None\<close> where allowed): the
  library may coerce a boolean, a float or a numeric string, which is not modelled.
\<close>

fun str_field :: "json \<Rightarrow> string option" where
  "str_field (JStr s) = Some s"
| "str_field _ = None"

fun opt_str_field :: "json \<Rightarrow> string option option" where
  "opt_str_field JNull = Some None"
| "opt_str_field (JStr s) = Some (Some s)"
| "opt_str_field _ = None"

fun int_field :: "json \<Rightarrow> int option" where
  "int_field (JInt n) = Some n"
| "int_field _ = None"

fun opt_int_field :: "json \<Rightarrow> int option option" where
  "opt_int_field JNull = Some None"
| "opt_int_field (JInt n) = Some (Some n)"
| "opt_int_field _ = None"

text \<open>
  \<^verbatim>\<open>_parse_cdp_timestamp\<close>: the current time for \<^verbatim>\<open>None\<close>, else the instant that many
  milliseconds after the epoch (a boolean counts as 0 or 1); dividing a string, a list or
  a dictionary raises TypeError. The instant is kept as the number read, not as a
  \<^verbatim>\<open>datetime\<close>. \<^verbatim>\<open>datetime.fromtimestamp\<close> raises beyond the year 9999, and what it does
  before 1970 depends on the platform: outside the range below the model gives \<open>None\<close>.
\<close>

datatype timestamp = Now | AtMillis rat

definition in_datetime_range :: "rat \<Rightarrow> bool" where
  "in_datetime_range ms = (0 \<le> ms \<and> ms \<le> 253402300799000)"

fun parse_cdp_timestamp :: "json \<Rightarrow> timestamp option" where
  "parse_cdp_timestamp JNull = Some Now"
| "parse_cdp_timestamp (JInt n) =
     (if in_datetime_range (of_int n) then Some (AtMillis (of_int n)) else None)"
| "parse_cdp_timestamp (JFloat q) = (if in_datetime_range q then Some (AtMillis q) else None)"
| "parse_cdp_timestamp (JBool b) = Some (AtMillis (if b then 1 else 0))"
| "parse_cdp_timestamp _ = None"

datatype log_level = DEBUG | INFO | WARN | ERROR

datatype log_kind = CONSOLE | EXCEPTION | BROWSER_LOG

record target_info =
  ti_id :: string
  ti_title :: string
  ti_url :: string

record source_location =
  sl_url :: string
  sl_line :: int
  sl_column :: int

record log_event =
  ts :: timestamp
  level :: log_level
  kind :: log_kind
  le_text :: string
  args :: "json list"
  source :: "source_location option"
  stack :: "string option"
  target :: "target_info option"
  execution_context_id :: "int option"

text \<open>Decimal digits of an integer, as an f-string renders it.\<close>

definition digit_char :: "nat \<Rightarrow> char" where
  "digit_char d = ''0123456789'' ! d"

fun show_nat :: "nat \<Rightarrow> string" where
  "show_nat n = (if n < 10 then [digit_char n] else show_nat (n div 10) @ [digit_char (n mod 10)])"

definition show_int :: "int \<Rightarrow> string" where
  "show_int i = (if i < 0 then CHR ''-'' # show_nat (nat (- i)) else show_nat (nat i))"

text \<open>
  \<^verbatim>\<open>str(v)\<close> as an f-string field: a string as it is, an integer in decimal, \<^verbatim>\<open>None\<close>,
  \<^verbatim>\<open>True\<close> and \<^verbatim>\<open>False\<close> by name. The renderings of floats, lists and dictionaries
  are not modelled (\<open>None\<close>).
\<close>

fun py_str :: "json \<Rightarrow> string option" where
  "py_str (JStr s) = Some s"
| "py_str (JInt n) = Some (show_int n)"
| "py_str JNull = Some ''None''"
| "py_str (JBool b) = Some (if b then ''True'' else ''False'')"
| "py_str _ = None"

text \<open>\<^verbatim>\<open>"\n".join(lines)\<close>.\<close>

fun join_lines :: "string list \<Rightarrow> string" where
  "join_lines [] = []"
| "join_lines [l] = l"
| "join_lines (l # m # ls) = l @ CHR 0x0A # join_lines (m # ls)"

text \<open>
  One turn of the loop of \<^verbatim>\<open>_format_stack_trace\<close>: the line
  \<^verbatim>\<open>f"    at {fn_name} ({url}:{line_num}:{col})"\<close>, and the function itself.
\<close>

definition format_frame :: "json \<Rightarrow> string option" where
  "format_frame frame =
     do {
       f \<leftarrow> as_dict frame;
       fn_name \<leftarrow> py_str (dict_get f ''functionName'' (JStr ''(anonymous)''));
       url \<leftarrow> py_str (dict_get f ''url'' (JStr []));
       line_num \<leftarrow> py_str (dict_get f ''lineNumber'' (JInt 0));
       col \<leftarrow> py_str (dict_get f ''columnNumber'' (JInt 0));
       Some (''    at '' @ fn_name @ '' ('' @ url @ '':'' @ line_num @ '':'' @ col @ '')'')
     }"

fun format_lines :: "json list \<Rightarrow> string list option" where
  "format_lines [] = Some []"
| "format_lines (frame # rest) =
     do { l \<leftarrow> format_frame frame; ls \<leftarrow> format_lines rest; Some (l # ls) }"

definition format_stack_trace :: "json list \<Rightarrow> string option" where
  "format_stack_trace call_frames = map_option join_lines (format_lines call_frames)"

text \<open>\<^verbatim>\<open>SourceLocation(url=frame.get("url", ""), line=..., column=...)\<close> of a call frame.\<close>

definition source_of_frame :: "json \<Rightarrow> source_location option" where
  "source_of_frame frame =
     do {
       f \<leftarrow> as_dict frame;
       u \<leftarrow> str_field (dict_get f ''url'' (JStr []));
       l \<leftarrow> int_field (dict_get f ''lineNumber'' (JInt 0));
       c \<leftarrow> int_field (dict_get f ''columnNumber'' (JInt 0));
       Some \<lparr>sl_url = u, sl_line = l, sl_column = c\<rparr>
     }"

text \<open>
  \<^verbatim>\<open>LogEvent.from_exception_thrown\<close>. A truthy \<^verbatim>\<open>callFrames\<close> that is not a list makes
  \<^verbatim>\<open>call_frames[0]\<close> or the \<^verbatim>\<open>.get\<close> after it raise.
\<close>

definition from_exception_thrown :: "json \<Rightarrow> target_info option \<Rightarrow> log_event option" where
  "from_exception_thrown event tgt =
     do {
       ev \<leftarrow> as_dict event;
       exception_details \<leftarrow> as_dict (dict_get ev ''exceptionDetails'' (JObj []));
       exception \<leftarrow> as_dict (dict_get exception_details ''exception'' (JObj []));
       let text_value = dict_get exception ''description''
                          (dict_get exception ''value'' (JStr ''Unknown exception''));
       stack_trace \<leftarrow> as_dict (dict_get exception_details ''stackTrace'' (JObj []));
       let call_frames = dict_get stack_trace ''callFrames'' (JArr []);
       (src, stack_str) \<leftarrow>
          (if py_truthy call_frames then
             (case call_frames of
                JArr (frame # rest) \<Rightarrow>
                  do {
                    sl \<leftarrow> source_of_frame frame;
                    st \<leftarrow> format_stack_trace (frame # rest);
                    Some (Some sl, Some st)
                  }
              | _ \<Rightarrow> None)
           else Some (None, None));
       t \<leftarrow> parse_cdp_timestamp (dict_get ev ''timestamp'' JNull);
       txt \<leftarrow> str_field text_value;
       ctx \<leftarrow> opt_int_field (dict_get exception_details ''executionContextId'' JNull);
       Some \<lparr>ts = t, level = ERROR, kind = EXCEPTION, le_text = txt, args = [],
             source = src, stack = stack_str, target = tgt, execution_context_id = ctx\<rparr>
     }"

text \<open>
  The payload of the repository's test \<^verbatim>\<open>test_basic_exception\<close>, part by part (the
  description shortened to its first line).
\<close>

definition example_call_frame :: json where
  "example_call_frame =
     JObj [(''functionName'', JStr ''myFunc''), (''url'', JStr ''http://localhost:3000/app.js''),
           (''lineNumber'', JInt 10), (''columnNumber'', JInt 5)]"

definition example_exc :: "(string \<times> json) list" where
  "example_exc =
     [(''type'', JStr ''object''), (''subtype'', JStr ''error''),
      (''description'', JStr ''Error: Something failed'')]"

definition example_stack_trace :: "(string \<times> json) list" where
  "example_stack_trace = [(''callFrames'', JArr [example_call_frame])]"

definition example_details :: "(string \<times> json) list" where
  "example_details =
     [(''exception'', JObj example_exc), (''executionContextId'', JInt 1),
      (''stackTrace'', JObj example_stack_trace)]"

definition example_exception :: "(string \<times> json) list" where
  "example_exception =
     [(''timestamp'', JFloat 1702828800000), (''exceptionDetails'', JObj example_details)]"

text \<open>
  Reading a payload whose members have their protocol types: the string or integer under
  a key, or the default when the key is absent.
\<close>

definition str_at :: "(string \<times> json) list \<Rightarrow> string \<Rightarrow> string \<Rightarrow> string" where
  "str_at d k dflt = (case map_of d k of Some (JStr s) \<Rightarrow> s | _ \<Rightarrow> dflt)"

definition int_at :: "(string \<times> json) list \<Rightarrow> string \<Rightarrow> int \<Rightarrow> int" where
  "int_at d k dflt = (case map_of d k of Some (JInt n) \<Rightarrow> n | _ \<Rightarrow> dflt)"

definition absent_or_str :: "(string \<times> json) list \<Rightarrow> string \<Rightarrow> bool" where
  "absent_or_str d k = (case map_of d k of None \<Rightarrow> True | Some (JStr s) \<Rightarrow> True | _ \<Rightarrow> False)"

definition absent_or_int :: "(string \<times> json) list \<Rightarrow> string \<Rightarrow> bool" where
  "absent_or_int d k = (case map_of d k of None \<Rightarrow> True | Some (JInt n) \<Rightarrow> True | _ \<Rightarrow> False)"

text \<open>
  A call frame with typed members: an object whose \<^verbatim>\<open>functionName\<close> and \<^verbatim>\<open>url\<close>, if
  present, are strings, the name not empty, and whose \<^verbatim>\<open>lineNumber\<close> and
  \<^verbatim>\<open>columnNumber\<close>, if present, are integers.
\<close>

definition typed_frame :: "json \<Rightarrow> bool" where
  "typed_frame frame =
     (case frame of
        JObj d \<Rightarrow>
          absent_or_str d ''functionName'' \<and> map_of d ''functionName'' \<noteq> Some (JStr [])
          \<and> absent_or_str d ''url'' \<and> absent_or_int d ''lineNumber''
          \<and> absent_or_int d ''columnNumber''
      | _ \<Rightarrow> False)"

text \<open>
  The line of a typed frame, with a space between the function and the parenthesis, and
  its source location.
\<close>

definition stack_line :: "json \<Rightarrow> string" where
  "stack_line frame =
     (case frame of
        JObj d \<Rightarrow>
          ''    at '' @ str_at d ''functionName'' ''(anonymous)'' @ '' ('' @ str_at d ''url'' []
          @ '':'' @ show_int (int_at d ''lineNumber'' 0)
          @ '':'' @ show_int (int_at d ''columnNumber'' 0) @ '')''
      | _ \<Rightarrow> [])"

definition source_at :: "json \<Rightarrow> source_location" where
  "source_at frame =
     (case frame of
        JObj d \<Rightarrow> \<lparr>sl_url = str_at d ''url'' [], sl_line = int_at d ''lineNumber'' 0,
                   sl_column = int_at d ''columnNumber'' 0\<rparr>
      | _ \<Rightarrow> \<lparr>sl_url = [], sl_line = 0, sl_column = 0\<rparr>)"

text \<open>
  The line as the specification words it, \<^verbatim>\<open>"    at <function>(<url>:<line>:<col>)"\<close>.
\<close>

definition spec_stack_line :: "string \<Rightarrow> string \<Rightarrow> int \<Rightarrow> int \<Rightarrow> string" where
  "spec_stack_line fn_name url line_num col =
     ''    at '' @ fn_name @ ''('' @ url @ '':'' @ show_int line_num @ '':'' @ show_int col @ '')''"

section \<open>Watch events and the network correlator\<close>

datatype watch_event_kind = CLICK | NAVIGATION | REQUEST | REDIRECT | MESSAGE | RESPONSE | FAILED

record watch_event =
  w_ts :: timestamp
  w_kind :: watch_event_kind
  w_url :: string
  w_method :: "string option"
  w_status :: "int option"
  w_resource_type :: "string option"
  w_redirect_url :: "string option"
  w_element :: "json option"
  w_target :: "target_info option"
  w_request_id :: "string option"
  w_error_text :: "string option"
  w_mime_type :: "string option"
  w_frame_id :: "string option"

text \<open>\<^verbatim>\<open>WatchEvent.from_request_will_be_sent\<close>.\<close>

definition from_request_will_be_sent :: "json \<Rightarrow> target_info option \<Rightarrow> watch_event option" where
  "from_request_will_be_sent params tgt =
     do {
       p \<leftarrow> as_dict params;
       request \<leftarrow> as_dict (dict_get p ''request'' (JObj []));
       let redirect_response = dict_get p ''redirectResponse'' JNull;
       t \<leftarrow> parse_cdp_timestamp (dict_get p ''timestamp'' JNull);
       u \<leftarrow> str_field (dict_get request ''url'' (JStr []));
       m \<leftarrow> opt_str_field (dict_get request ''method'' JNull);
       rt \<leftarrow> opt_str_field (dict_get p ''type'' JNull);
       ru \<leftarrow> (if py_truthy redirect_response
              then opt_str_field (dict_get request ''url'' JNull) else Some None);
       st \<leftarrow> (if py_truthy redirect_response
              then do { rr \<leftarrow> as_dict redirect_response;
                        opt_int_field (dict_get rr ''status'' JNull) }
              else Some None);
       rid \<leftarrow> opt_str_field (dict_get p ''requestId'' JNull);
       fid \<leftarrow> opt_str_field (dict_get p ''frameId'' JNull);
       Some \<lparr>w_ts = t,
             w_kind = (if py_truthy redirect_response then REDIRECT else REQUEST),
             w_url = u, w_method = m, w_status = st, w_resource_type = rt,
             w_redirect_url = ru, w_element = None, w_target = tgt, w_request_id = rid,
             w_error_text = None, w_mime_type = None, w_frame_id = fid\<rparr>
     }"

text \<open>\<^verbatim>\<open>WatchEvent.from_response_received\<close>: the url is the response's own.\<close>

definition from_response_received :: "json \<Rightarrow> target_info option \<Rightarrow> watch_event option" where
  "from_response_received params tgt =
     do {
       p \<leftarrow> as_dict params;
       response \<leftarrow> as_dict (dict_get p ''response'' (JObj []));
       t \<leftarrow> parse_cdp_timestamp (dict_get p ''timestamp'' JNull);
       u \<leftarrow> str_field (dict_get response ''url'' (JStr []));
       st \<leftarrow> opt_int_field (dict_get response ''status'' JNull);
       rt \<leftarrow> opt_str_field (dict_get p ''type'' JNull);
       rid \<leftarrow> opt_str_field (dict_get p ''requestId'' JNull);
       fid \<leftarrow> opt_str_field (dict_get p ''frameId'' JNull);
       mt \<leftarrow> opt_str_field (dict_get response ''mimeType'' JNull);
       Some \<lparr>w_ts = t, w_kind = RESPONSE, w_url = u, w_method = None, w_status = st,
             w_resource_type = rt, w_redirect_url = None, w_element = None, w_target = tgt,
             w_request_id = rid, w_error_text = None, w_mime_type = mt, w_frame_id = fid\<rparr>
     }"

text \<open>\<^verbatim>\<open>WatchEvent.from_loading_failed\<close>.\<close>

definition from_loading_failed :: "json \<Rightarrow> target_info option \<Rightarrow> watch_event option" where
  "from_loading_failed params tgt =
     do {
       p \<leftarrow> as_dict params;
       t \<leftarrow> parse_cdp_timestamp (dict_get p ''timestamp'' JNull);
       rt \<leftarrow> opt_str_field (dict_get p ''type'' JNull);
       rid \<leftarrow> opt_str_field (dict_get p ''requestId'' JNull);
       et \<leftarrow> opt_str_field (dict_get p ''errorText'' JNull);
       Some \<lparr>w_ts = t, w_kind = FAILED, w_url = [], w_method = None, w_status = None,
             w_resource_type = rt, w_redirect_url = None, w_element = None, w_target = tgt,
             w_request_id = rid, w_error_text = et, w_mime_type = None, w_frame_id = None\<rparr>
     }"

text \<open>
  The arguments of \<^verbatim>\<open>CDPClient.stream_network\<close>, and the entry it keeps for a request
  in flight: the values as read from the payload, unvalidated.
\<close>

record network_options =
  include_requests :: bool
  include_responses :: bool
  include_failures :: bool
  resource_types :: "string set option"
  status_filter :: "int set option"

record request_info =
  ri_url :: json
  ri_method :: json
  ri_type :: json
  ri_frame_id :: json

text \<open>The defaults of \<^verbatim>\<open>stream_network\<close>: everything included, no filter.\<close>

definition default_options :: network_options where
  "default_options =
     \<lparr>include_requests = True, include_responses = True, include_failures = True,
      resource_types = None, status_filter = None\<rparr>"

text \<open>
  \<^verbatim>\<open>resource_types and resource_type not in resource_types\<close>: a filter that is \<^verbatim>\<open>None\<close>
  or empty excludes nothing; testing a list or a dictionary for membership in a set raises
  TypeError. \<^verbatim>\<open>status_filter and status not in status_filter\<close> likewise, where a
  number is found in a set of integers as \<open>pending_key\<close> tells.
\<close>

definition type_excluded :: "network_options \<Rightarrow> json \<Rightarrow> bool option" where
  "type_excluded opts resource_type =
     (case resource_types opts of
        None \<Rightarrow> Some False
      | Some allowed \<Rightarrow>
          if allowed = {} then Some False
          else (case resource_type of
                  JStr r \<Rightarrow> Some (r \<notin> allowed)
                | JArr xs \<Rightarrow> None
                | JObj d \<Rightarrow> None
                | _ \<Rightarrow> Some True))"

definition status_excluded :: "network_options \<Rightarrow> json \<Rightarrow> bool option" where
  "status_excluded opts status =
     (case status_filter opts of
        None \<Rightarrow> Some False
      | Some allowed \<Rightarrow>
          if allowed = {} then Some False
          else (case pending_key status of
                  None \<Rightarrow> None
                | Some None \<Rightarrow> Some True
                | Some (Some n) \<Rightarrow> Some (n \<notin> allowed)))"

text \<open>
  A request id as a key of \<^verbatim>\<open>pending_requests\<close>: a string, or \<^verbatim>\<open>None\<close>. A list or a
  dictionary is unhashable (TypeError); numbers and booleans as keys are not modelled.
\<close>

fun request_key :: "json \<Rightarrow> json option" where
  "request_key (JStr r) = Some (JStr r)"
| "request_key JNull = Some JNull"
| "request_key _ = None"

text \<open>
  One turn of the loop of \<^verbatim>\<open>stream_network\<close> on one event of the stream: the table
  of requests in flight afterwards and the watch events yielded. After a failure the url,
  method and frame id of the entry recalled are assigned to the event without validation;
  an entry whose url is not a string, or whose method or frame id is neither a string nor
  \<^verbatim>\<open>None\<close>, is not modelled.
\<close>

definition stream_network_step ::
  "network_options \<Rightarrow> target_info option \<Rightarrow> (json \<rightharpoonup> request_info) \<Rightarrow> json
     \<Rightarrow> ((json \<rightharpoonup> request_info) \<times> watch_event list) option" where
  "stream_network_step opts tgt pending_requests event =
     do {
       ev \<leftarrow> as_dict event;
       let method = dict_get ev ''method'' (JStr []);
       let params = dict_get ev ''params'' (JObj []);
       if method = JStr ''Network.requestWillBeSent'' then
         do {
           p \<leftarrow> as_dict params;
           let request_id = dict_get p ''requestId'' (JStr []);
           let resource_type = dict_get p ''type'' (JStr []);
           excluded \<leftarrow> type_excluded opts resource_type;
           if excluded then Some (pending_requests, [])
           else
             do {
               request \<leftarrow> as_dict (dict_get p ''request'' (JObj []));
               k \<leftarrow> request_key request_id;
               let pending' = pending_requests(k \<mapsto>
                     \<lparr>ri_url = dict_get request ''url'' (JStr []),
                      ri_method = dict_get request ''method'' (JStr ''GET''),
                      ri_type = resource_type,
                      ri_frame_id = dict_get p ''frameId'' JNull\<rparr>);
               if include_requests opts
               then do { w \<leftarrow> from_request_will_be_sent params tgt; Some (pending', [w]) }
               else Some (pending', [])
             }
         }
       else if method = JStr ''Network.responseReceived'' then
         do {
           p \<leftarrow> as_dict params;
           let request_id = dict_get p ''requestId'' (JStr []);
           response \<leftarrow> as_dict (dict_get p ''response'' (JObj []));
           by_status \<leftarrow> status_excluded opts (dict_get response ''status'' (JInt 0));
           if by_status then Some (pending_requests, [])
           else
             do {
               by_type \<leftarrow> type_excluded opts (dict_get p ''type'' (JStr []));
               if by_type then Some (pending_requests, [])
               else
                 do {
                   out \<leftarrow> (if include_responses opts
                           then map_option (\<lambda>w. [w]) (from_response_received params tgt)
                           else Some []);
                   k \<leftarrow> request_key request_id;
                   Some (pending_requests(k := None), out)
                 }
             }
         }
       else if method = JStr ''Network.loadingFailed'' then
         do {
           p \<leftarrow> as_dict params;
           k \<leftarrow> request_key (dict_get p ''requestId'' (JStr []));
           let request_info = pending_requests k;
           let pending' = pending_requests(k := None);
           by_type \<leftarrow> type_excluded opts (dict_get p ''type'' (JStr []));
           if by_type then Some (pending', [])
           else if include_failures opts then
             do {
               w \<leftarrow> from_loading_failed params tgt;
               u \<leftarrow> (case request_info of None \<Rightarrow> Some [] | Some ri \<Rightarrow> str_field (ri_url ri));
               m \<leftarrow> (case request_info of
                       None \<Rightarrow> Some None | Some ri \<Rightarrow> opt_str_field (ri_method ri));
               f \<leftarrow> (case request_info of
                       None \<Rightarrow> Some None | Some ri \<Rightarrow> opt_str_field (ri_frame_id ri));
               Some (pending', [w\<lparr>w_url := u, w_method := m, w_frame_id := f\<rparr>])
             }
           else Some (pending', [])
         }
       else Some (pending_requests, [])
     }"

text \<open>
  \<^verbatim>\<open>stream_network\<close> over the events that \<^verbatim>\<open>stream_events\<close> yields, from a given table
  and from the empty table it starts with: the watch events yielded, and the table at the
  end or \<open>None\<close> when a turn raised, which ends the generator.
\<close>

fun stream_network_from ::
  "network_options \<Rightarrow> target_info option \<Rightarrow> (json \<rightharpoonup> request_info) \<Rightarrow> json list
     \<Rightarrow> watch_event list \<times> (json \<rightharpoonup> request_info) option" where
  "stream_network_from opts tgt pending_requests [] = ([], Some pending_requests)"
| "stream_network_from opts tgt pending_requests (event # events) =
     (case stream_network_step opts tgt pending_requests event of
        None \<Rightarrow> ([], None)
      | Some (pending', out) \<Rightarrow>
          (case stream_network_from opts tgt pending' events of
             (outs, final) \<Rightarrow> (out @ outs, final)))"

definition stream_network ::
  "network_options \<Rightarrow> target_info option \<Rightarrow> json list
     \<Rightarrow> watch_event list \<times> (json \<rightharpoonup> request_info) option" where
  "stream_network opts tgt events = stream_network_from opts tgt Map.empty events"

text \<open>
  Example events: a request for \<^verbatim>\<open>http://x/a\<close> under id R, a 404 response under id R
  whose own url is \<^verbatim>\<open>http://x/b\<close>, and a failure under id Q.
\<close>

definition example_request :: json where
  "example_request =
     JObj [(''method'', JStr ''Network.requestWillBeSent''),
           (''params'',
            JObj [(''requestId'', JStr ''R''), (''type'', JStr ''Document''),
                  (''request'', JObj [(''url'', JStr ''http://x/a''), (''method'', JStr ''GET'')])])]"

definition example_response :: json where
  "example_response =
     JObj [(''method'', JStr ''Network.responseReceived''),
           (''params'',
            JObj [(''requestId'', JStr ''R''), (''type'', JStr ''Document''),
                  (''response'', JObj [(''url'', JStr ''http://x/b''), (''status'', JInt 404)])])]"

definition example_failure_params :: "(string \<times> json) list" where
  "example_failure_params =
     [(''requestId'', JStr ''Q''), (''type'', JStr ''XHR''),
      (''errorText'', JStr ''net::ERR_FAILED'')]"

definition example_failure :: "(string \<times> json) list" where
  "example_failure =
     [(''method'', JStr ''Network.loadingFailed''), (''params'', JObj example_failure_params)]"

text \<open>
  The options that include every kind of event and filter nothing, and events whose
  members have their protocol types: a \<^verbatim>\<open>requestWillBeSent\<close> with request id \<open>R\<close> and
  url \<open>U\<close> that carries no redirect response, and a \<^verbatim>\<open>responseReceived\<close> with request
  id \<open>R\<close> and status \<open>n\<close> whose response has the url \<open>V\<close> (empty when it has none).
\<close>

definition unfiltered :: "network_options \<Rightarrow> bool" where
  "unfiltered opts =
     (include_requests opts \<and> include_responses opts \<and> include_failures opts
      \<and> (resource_types opts = None \<or> resource_types opts = Some {})
      \<and> (status_filter opts = None \<or> status_filter opts = Some {}))"

definition typed_request :: "json \<Rightarrow> string \<Rightarrow> string \<Rightarrow> bool" where
  "typed_request event R U =
     (case event of
        JObj ev \<Rightarrow>
          dict_get ev ''method'' (JStr []) = JStr ''Network.requestWillBeSent''
          \<and> (case dict_get ev ''params'' (JObj []) of
                JObj p \<Rightarrow>
                  map_of p ''requestId'' = Some (JStr R)
                  \<and> \<not> py_truthy (dict_get p ''redirectResponse'' JNull)
                  \<and> opt_str_field (dict_get p ''type'' JNull) \<noteq> None
                  \<and> opt_str_field (dict_get p ''frameId'' JNull) \<noteq> None
                  \<and> parse_cdp_timestamp (dict_get p ''timestamp'' JNull) \<noteq> None
                  \<and> (case dict_get p ''request'' (JObj []) of
                        JObj rq \<Rightarrow>
                          map_of rq ''url'' = Some (JStr U)
                          \<and> opt_str_field (dict_get rq ''method'' JNull) \<noteq> None
                      | _ \<Rightarrow> False)
              | _ \<Rightarrow> False)
      | _ \<Rightarrow> False)"

definition typed_response :: "json \<Rightarrow> string \<Rightarrow> int \<Rightarrow> string \<Rightarrow> bool" where
  "typed_response event R n V =
     (case event of
        JObj ev \<Rightarrow>
          dict_get ev ''method'' (JStr []) = JStr ''Network.responseReceived''
          \<and> (case dict_get ev ''params'' (JObj []) of
                JObj p \<Rightarrow>
                  map_of p ''requestId'' = Some (JStr R)
                  \<and> opt_str_field (dict_get p ''type'' JNull) \<noteq> None
                  \<and> opt_str_field (dict_get p ''frameId'' JNull) \<noteq> None
                  \<and> parse_cdp_timestamp (dict_get p ''timestamp'' JNull) \<noteq> None
                  \<and> (case dict_get p ''response'' (JObj []) of
                        JObj rs \<Rightarrow>
                          map_of rs ''status'' = Some (JInt n)
                          \<and> dict_get rs ''url'' (JStr []) = JStr V
                          \<and> opt_str_field (dict_get rs ''mimeType'' JNull) \<noteq> None
                      | _ \<Rightarrow> False)
              | _ \<Rightarrow> False)
      | _ \<Rightarrow> False)"

section \<open>Target resolution: proofs\<close>

lemma first_where_find: "first_where P xs = List.find P xs"
  by (induction xs) simp_all

lemma find_target_empty:
  "find_target (Inr []) i u t = Inl TargetNotFoundError"
  by (simp add: find_target_def)

lemma find_target_by_id:
  "targets \<noteq> [] \<Longrightarrow> s \<noteq> [] \<Longrightarrow>
   find_target (Inr targets) (Some s) u t =
     (case List.find (\<lambda>x. t_id x = s) targets of
        Some x \<Rightarrow> Inr x | None \<Rightarrow> Inl TargetNotFoundError)"
  by (simp add: find_target_def first_where_find)

lemma find_target_by_url:
  "targets \<noteq> [] \<Longrightarrow> \<not> truthy i \<Longrightarrow> s \<noteq> [] \<Longrightarrow>
   find_target (Inr targets) i (Some s) t =
     (case List.find (\<lambda>x. sublist s (t_url x)) (filter (\<lambda>x. target_type x = ''page'') targets) of
        Some x \<Rightarrow> Inr x | None \<Rightarrow> Inl TargetNotFoundError)"
  by (simp add: find_target_def first_where_find)

lemma find_target_by_title:
  "targets \<noteq> [] \<Longrightarrow> \<not> truthy i \<Longrightarrow> \<not> truthy u \<Longrightarrow> s \<noteq> [] \<Longrightarrow>
   find_target (Inr targets) i u (Some s) =
     (case List.find (\<lambda>x. sublist s (t_title x)) (filter (\<lambda>x. target_type x = ''page'') targets) of
        Some x \<Rightarrow> Inr x | None \<Rightarrow> Inl TargetNotFoundError)"
  by (simp add: find_target_def first_where_find)

lemma find_target_default:
  "targets \<noteq> [] \<Longrightarrow> \<not> truthy i \<Longrightarrow> \<not> truthy u \<Longrightarrow> \<not> truthy t \<Longrightarrow>
   find_target (Inr targets) i u t =
     (case filter (\<lambda>x. target_type x = ''page'') targets of
        p # _ \<Rightarrow> Inr p | [] \<Rightarrow> Inr (hd targets))"
  by (simp add: find_target_def Let_def split: list.splits)

lemma example_url_foo:
  "find_target (Inr example_directory) None (Some ''foo'') None = Inr (hd example_directory)"
  by (simp add: find_target_def example_directory_def sublist_code prefix_code)

lemma example_url_zzz:
  "find_target (Inr example_directory) None (Some ''zzz'') None = Inl TargetNotFoundError"
  by (simp add: find_target_def example_directory_def sublist_code prefix_code)

text \<open>
  C4. \<^verbatim>\<open>find_target\<close> resolves in this order. An empty directory fails with
  TargetNotFoundError whatever the selectors. On a non-empty directory, a given id selects
  the first target with exactly that id among all targets, and fails with
  TargetNotFoundError if there is none; else a given URL substring selects the first
  page-type target whose url contains it, and fails if there is none; else a given title
  substring does the same over titles; else the first page-type target is returned, or
  the first target of any type when no target is page-type. In the example directory,
  url substring "foo" resolves to target "a" and "zzz" fails with TargetNotFoundError.
\<close>

theorem find_target_resolution_order:
  "find_target (Inr []) i u t = Inl TargetNotFoundError
   \<and> (targets \<noteq> [] \<longrightarrow>
        (\<forall>s. s \<noteq> [] \<longrightarrow>
           find_target (Inr targets) (Some s) u t =
             (case List.find (\<lambda>x. t_id x = s) targets of
                Some x \<Rightarrow> Inr x | None \<Rightarrow> Inl TargetNotFoundError))
      \<and> (\<forall>s. \<not> truthy i \<and> s \<noteq> [] \<longrightarrow>
           find_target (Inr targets) i (Some s) t =
             (case List.find (\<lambda>x. sublist s (t_url x))
                     (filter (\<lambda>x. target_type x = ''page'') targets) of
                Some x \<Rightarrow> Inr x | None \<Rightarrow> Inl TargetNotFoundError))
      \<and> (\<forall>s. \<not> truthy i \<and> \<not> truthy u \<and> s \<noteq> [] \<longrightarrow>
           find_target (Inr targets) i u (Some s) =
             (case List.find (\<lambda>x. sublist s (t_title x))
                     (filter (\<lambda>x. target_type x = ''page'') targets) of
                Some x \<Rightarrow> Inr x | None \<Rightarrow> Inl TargetNotFoundError))
      \<and> (\<not> truthy i \<and> \<not> truthy u \<and> \<not> truthy t \<longrightarrow>
           find_target (Inr targets) i u t =
             (case filter (\<lambda>x. target_type x = ''page'') targets of
                p # _ \<Rightarrow> Inr p | [] \<Rightarrow> Inr (hd targets))))
   \<and> (\<exists>x. find_target (Inr example_directory) None (Some ''foo'') None = Inr x \<and> t_id x = ''a'')
   \<and> find_target (Inr example_directory) None (Some ''zzz'') None = Inl TargetNotFoundError"
proof -
  have ex: "\<exists>x. find_target (Inr example_directory) None (Some ''foo'') None = Inr x
              \<and> t_id x = ''a''"
    using example_url_foo by (simp add: example_directory_def)
  show ?thesis
    using find_target_empty find_target_by_id find_target_by_url find_target_by_title
      find_target_default example_url_zzz ex
    by (intro conjI impI allI) simp_all
qed

theorem find_target_resolution_order_witness:
  "example_directory \<noteq> []
   \<and> find_target (Inr []) None None None = Inl TargetNotFoundError
   \<and> find_target (Inr example_directory) (Some ''b'') None None = Inr (example_directory ! 1)
   \<and> find_target (Inr example_directory) (Some ''c'') None None = Inl TargetNotFoundError
   \<and> find_target (Inr example_directory) None (Some ''http'') None = Inr (example_directory ! 0)
   \<and> find_target (Inr example_directory) None None (Some ''x'') = Inl TargetNotFoundError
   \<and> find_target (Inr example_directory) None None None = Inr (example_directory ! 0)"
  using find_target_resolution_order [of None None None example_directory]
  by (simp add: example_directory_def sublist_code prefix_code)

text \<open>
  C10. On a non-empty directory an empty-string selector counts as absent: replacing
  \<^verbatim>\<open>""\<close> by \<^verbatim>\<open>None\<close> in any of the three selectors does not change the result, and
  when every selector is \<^verbatim>\<open>""\<close> or \<^verbatim>\<open>None\<close> the call does not fail: it returns the
  first page-type target, or the first target when none is page-type.
\<close>

theorem find_target_empty_selector_is_absent:
  assumes "targets \<noteq> []"
  shows "find_target (Inr targets) (Some []) u t = find_target (Inr targets) None u t
       \<and> find_target (Inr targets) i (Some []) t = find_target (Inr targets) i None t
       \<and> find_target (Inr targets) i u (Some []) = find_target (Inr targets) i u None
       \<and> (i \<in> {None, Some []} \<and> u \<in> {None, Some []} \<and> t \<in> {None, Some []} \<longrightarrow>
            find_target (Inr targets) i u t =
              (case filter (\<lambda>x. target_type x = ''page'') targets of
                 p # _ \<Rightarrow> Inr p | [] \<Rightarrow> Inr (hd targets))
          \<and> (\<exists>x \<in> set targets. find_target (Inr targets) i u t = Inr x))"
proof -
  have falsy: "\<not> truthy i \<and> \<not> truthy u \<and> \<not> truthy t"
    if "i \<in> {None, Some []} \<and> u \<in> {None, Some []} \<and> t \<in> {None, Some []}"
    using that by auto
  have dflt: "find_target (Inr targets) i u t =
      (case filter (\<lambda>x. target_type x = ''page'') targets of
         p # _ \<Rightarrow> Inr p | [] \<Rightarrow> Inr (hd targets))"
    if "\<not> truthy i \<and> \<not> truthy u \<and> \<not> truthy t"
    using that assms by (simp add: find_target_default)
  have mem: "\<exists>x \<in> set targets. find_target (Inr targets) i u t = Inr x"
    if f: "\<not> truthy i \<and> \<not> truthy u \<and> \<not> truthy t"
  proof (cases "filter (\<lambda>x. target_type x = ''page'') targets")
    case Nil
    with dflt [OF f] assms show ?thesis by simp
  next
    case (Cons p ps)
    then have "p \<in> set (filter (\<lambda>x. target_type x = ''page'') targets)" by simp
    then have "p \<in> set targets" by simp
    with dflt [OF f] Cons show ?thesis by simp
  qed
  have e1: "find_target (Inr targets) (Some []) u t = find_target (Inr targets) None u t"
    by (simp add: find_target_def)
  have e2: "find_target (Inr targets) i (Some []) t = find_target (Inr targets) i None t"
    by (simp add: find_target_def)
  have e3: "find_target (Inr targets) i u (Some []) = find_target (Inr targets) i u None"
    by (simp add: find_target_def Let_def)
  from e1 e2 e3 falsy dflt mem show ?thesis by blast
qed

theorem find_target_empty_selector_is_absent_witness:
  "example_directory \<noteq> []
   \<and> find_target (Inr example_directory) (Some []) (Some []) (Some []) = Inr (hd example_directory)
   \<and> find_target (Inr example_directory) (Some []) (Some []) (Some [])
       = find_target (Inr example_directory) None None None"
  using find_target_empty_selector_is_absent
          [of example_directory "Some []" "Some []" "Some []"]
  by (simp add: example_directory_def find_target_def)

section \<open>Frame resolution: proofs\<close>

lemma example_frame_tree_flattened:
  "collect_child_frames example_frame_tree =
     Some [JObj [(''id'', JStr ''childA''), (''url'', JStr ''http://x/a'')],
           JObj [(''id'', JStr ''childB''), (''url'', JStr ''http://x/b'')],
           JObj [(''id'', JStr ''grandchild''), (''url'', JStr ''http://x/b/g'')]]"
  by (simp add: example_frame_tree_def frame_node_def dict_get_def)

lemma example_index_two:
  "find_iframe_context (Inr (JObj [(''frameTree'', example_frame_tree)])) None 2
     = Inr (JStr ''grandchild'')"
  by (simp add: find_iframe_context_def example_frame_tree_flattened dict_get_def
        list_item_def frame_id_of_def)

lemma find_iframe_context_index_beyond:
  "collect_child_frames tree = Some frames \<Longrightarrow> int (length frames) \<le> index \<Longrightarrow>
   find_iframe_context (Inr (JObj [(''frameTree'', tree)])) None index = Inr JNull"
  by (simp add: find_iframe_context_def dict_get_def)

lemma find_iframe_context_index_within:
  "collect_child_frames tree = Some frames \<Longrightarrow> 0 \<le> index \<Longrightarrow> index < int (length frames) \<Longrightarrow>
   find_iframe_context (Inr (JObj [(''frameTree'', tree)])) None index
     = frame_id_of (frames ! nat index)"
  by (simp add: find_iframe_context_def dict_get_def list_item_def)

text \<open>
  C8. The frames are flattened depth-first and a non-negative index beyond the list gives
  none, but the bound is checked on one side only: \<^verbatim>\<open>index < len(iframe_frames)\<close> holds
  for every negative index, and \<^verbatim>\<open>iframe_frames[index]\<close> then counts from the end. On a
  page without iframes index -1 raises IndexError, and on the example tree index -1
  resolves to the last frame and index -4 raises IndexError, where the claim has none.
\<close>

theorem find_iframe_context_negative_index:
  "find_iframe_context (Inr (JObj [(''frameTree'', lone_frame_tree)])) None (- 1) = Inl IndexError
   \<and> find_iframe_context (Inr (JObj [(''frameTree'', example_frame_tree)])) None (- 1)
       = Inr (JStr ''grandchild'')
   \<and> find_iframe_context (Inr (JObj [(''frameTree'', example_frame_tree)])) None (- 4)
       = Inl IndexError"
  by (simp add: find_iframe_context_def example_frame_tree_flattened lone_frame_tree_def
        dict_get_def list_item_def frame_id_of_def)

section \<open>Session: proofs\<close>

lemma update_waiting_keeps_done:
  "xs ! i \<noteq> Waiting \<Longrightarrow> xs ! j = Waiting \<Longrightarrow> xs[j := v] ! i = xs ! i"
  by (metis nth_list_update_neq)

lemma receive_one_keeps_done:
  assumes "future < length (futures s)" "futures s ! future \<noteq> Waiting"
  shows "futures (fst (receive_one s frame)) ! future = futures s ! future
       \<and> length (futures (fst (receive_one s frame))) = length (futures s)"
  using assms
  by (auto simp: receive_one_def Let_def update_waiting_keeps_done
           split: incoming.splits option.splits bool.splits)

lemma receive_step_keeps_done:
  assumes "future < length (futures s)" "futures s ! future \<noteq> Waiting"
  shows "futures (receive_step s frame) ! future = futures s ! future
       \<and> length (futures (receive_step s frame)) = length (futures s)"
  using receive_one_keeps_done [OF assms, of frame]
  by (auto simp: receive_step_def split: prod.splits bool.splits)

lemma step_keeps_done:
  assumes "future < length (futures s)" "futures s ! future \<noteq> Waiting"
  shows "futures (step s a) ! future = futures s ! future
       \<and> future < length (futures (step s a))"
proof (cases a)
  case (Receive frame)
  then show ?thesis using receive_step_keeps_done [OF assms, of frame] assms by simp
next
  case (Wait m f e)
  then show ?thesis using assms
    by (auto simp: send_command_wait_def update_waiting_keeps_done split: future.splits)
qed (use assms in \<open>auto simp: connect_def send_command_begin_def Let_def nth_append
      stream_events_def disconnect_def\<close>)

lemma run_keeps_done:
  "future < length (futures s) \<Longrightarrow> futures s ! future \<noteq> Waiting \<Longrightarrow>
   futures (run s actions) ! future = futures s ! future"
  unfolding run_def
proof (induction actions arbitrary: s)
  case Nil
  then show ?case by simp
next
  case (Cons a actions)
  from step_keeps_done [OF Cons.prems, of a]
  have "futures (step s a) ! future = futures s ! future"
    and "future < length (futures (step s a))" by simp_all
  with Cons.IH [of "step s a"] Cons.prems show ?case by simp
qed

lemma receive_step_well_formed:
  assumes "recv_task s = Some Running" "well_formed_frame frame"
  shows "recv_task (receive_step s frame) = Some Running
       \<and> event_queue (receive_step s frame) = event_queue s @ events_of [frame]"
proof -
  from assms(2) obtain d where f: "frame = Text (JObj d)"
    by (auto simp: well_formed_frame_def split: incoming.splits option.splits elim: as_dict.elims)
  show ?thesis
  proof (cases "map_of d ''id''")
    case None
    then have "''id'' \<notin> fst ` set d" by (simp add: map_of_eq_None_iff)
    with assms f show ?thesis
      by (simp add: receive_step_def receive_one_def events_of_def)
  next
    case (Some i)
    then have "''id'' \<in> fst ` set d" by (metis map_of_eq_None_iff option.distinct(1))
    with assms f Some show ?thesis
      by (auto simp: receive_step_def receive_one_def events_of_def well_formed_frame_def
            dict_get_def Let_def split: option.splits)
  qed
qed

lemma events_of_Cons: "events_of (f # fs) = events_of [f] @ events_of fs"
  by (simp add: events_of_def)

lemma receive_loop_well_formed:
  "recv_task s = Some Running \<Longrightarrow> \<forall>f \<in> set frames. well_formed_frame f \<Longrightarrow>
   recv_task (receive_loop s frames) = Some Running
   \<and> event_queue (receive_loop s frames) = event_queue s @ events_of frames"
  unfolding receive_loop_def
proof (induction frames arbitrary: s)
  case Nil
  then show ?case by (simp add: events_of_def)
next
  case (Cons f frames)
  from Cons.prems receive_step_well_formed [of s f]
  have 1: "recv_task (receive_step s f) = Some Running"
    and 2: "event_queue (receive_step s f) = event_queue s @ events_of [f]" by simp_all
  from Cons.IH [OF 1] Cons.prems 2 show ?case
    by (simp add: events_of_Cons [of f frames])
qed

lemma receive_loop_not_running:
  "recv_task s \<noteq> Some Running \<Longrightarrow> receive_loop s frames = s"
  unfolding receive_loop_def
  by (induction frames) (simp_all add: receive_step_def)

lemmas session_eval =
  connected_session_def new_session_def connect_def example_directory_def
  send_command_begin_def send_command_wait_def disconnect_def receive_loop_def
  receive_step_def receive_one_def stream_events_def dict_get_def events_of_def
  well_formed_frame_def Let_def

text \<open>
  C1, as stated, fails: a message that carries an \<^verbatim>\<open>id\<close> is never queued, also when no
  pending request has that id. On a connected session with an empty pending table, the
  reply \<^verbatim>\<open>{"id": 7, "result": {}}\<close> is received and no event is yielded.
\<close>

theorem unmatched_reply_is_dropped:
  "pending_commands connected_session 7 = None
   \<and> recv_task connected_session = Some Running
   \<and> fst (stream_events
            (receive_loop connected_session
               [Text (JObj [(''id'', JInt 7), (''result'', JObj [])])])) = []"
  by (simp add: session_eval)

text \<open>
  C1, amended. While the receive task runs, over well-formed frames, the events that
  \<^verbatim>\<open>stream_events\<close> yields are the events queued before followed by exactly the messages
  without an \<^verbatim>\<open>id\<close> member, in arrival order. Whether a message with an \<^verbatim>\<open>id\<close> matches
  a pending request plays no part: none of them is yielded.
\<close>

theorem stream_events_yields_messages_without_id:
  assumes "recv_task s = Some Running"
    and "\<forall>f \<in> set frames. well_formed_frame f"
  shows "fst (stream_events (receive_loop s frames)) = event_queue s @ events_of frames
       \<and> events_of frames = [JObj d. Text (JObj d) \<leftarrow> frames, map_of d ''id'' = None]"
proof -
  have "events_of frames = [JObj d. Text (JObj d) \<leftarrow> frames, map_of d ''id'' = None]"
    using assms(2)
  proof (induction frames)
    case Nil
    then show ?case by (simp add: events_of_def)
  next
    case (Cons f frames)
    from Cons.prems obtain d where f: "f = Text (JObj d)"
      by (auto simp: well_formed_frame_def split: incoming.splits option.splits
            elim: as_dict.elims)
    have "(''id'' \<in> fst ` set d) = (map_of d ''id'' \<noteq> None)"
      by (metis map_of_eq_None_iff)
    then have b: "events_of [f] = (if map_of d ''id'' = None then [JObj d] else [])"
      using f by (auto simp: events_of_def)
    have a: "events_of (f # frames) = events_of [f] @ events_of frames"
      by (rule events_of_Cons)
    have c: "events_of frames = [JObj d. Text (JObj d) \<leftarrow> frames, map_of d ''id'' = None]"
      using Cons by simp
    have d: "[JObj d. Text (JObj d) \<leftarrow> f # frames, map_of d ''id'' = None]
           = (if map_of d ''id'' = None then [JObj d] else [])
             @ [JObj d. Text (JObj d) \<leftarrow> frames, map_of d ''id'' = None]"
      using f by simp
    show ?case by (simp only: a b c d)
  qed
  with receive_loop_well_formed [OF assms] show ?thesis
    by (simp add: stream_events_def)
qed

theorem stream_events_yields_messages_without_id_witness:
  "recv_task connected_session = Some Running
   \<and> well_formed_frame (Text (JObj [(''method'', JStr ''Page.frameNavigated'')]))
   \<and> well_formed_frame (Text (JObj [(''id'', JInt 7), (''result'', JObj [])]))
   \<and> well_formed_frame (Text (JObj [(''method'', JStr ''Log.entryAdded'')]))
   \<and> fst (stream_events
            (receive_loop connected_session
               [Text (JObj [(''method'', JStr ''Page.frameNavigated'')]),
                Text (JObj [(''id'', JInt 7), (''result'', JObj [])]),
                Text (JObj [(''method'', JStr ''Log.entryAdded'')])]))
       = [JObj [(''method'', JStr ''Page.frameNavigated'')],
          JObj [(''method'', JStr ''Log.entryAdded'')]]"
  using stream_events_yields_messages_without_id
          [of connected_session
              "[Text (JObj [(''method'', JStr ''Page.frameNavigated'')]),
                Text (JObj [(''id'', JInt 7), (''result'', JObj [])]),
                Text (JObj [(''method'', JStr ''Log.entryAdded'')])]"]
  by (simp add: session_eval)

text \<open>
  C9. On a session without a channel \<^verbatim>\<open>send_command\<close> fails with CDPConnectionError
  and the session is as before: the same message id, pending table and channel output.
\<close>

theorem send_command_not_connected:
  assumes "\<not> ws s"
  shows "send_command_begin s method params = (s, Inl CDPConnectionError)
       \<and> message_id (fst (send_command_begin s method params)) = message_id s
       \<and> pending_commands (fst (send_command_begin s method params)) = pending_commands s
       \<and> outbox (fst (send_command_begin s method params)) = outbox s"
  using assms by (simp add: send_command_begin_def)

theorem send_command_not_connected_witness:
  "\<not> ws new_session
   \<and> send_command_begin new_session ''Runtime.enable'' None = (new_session, Inl CDPConnectionError)
   \<and> \<not> ws (disconnect connected_session)
   \<and> send_command_begin (disconnect connected_session) ''Runtime.enable'' None
       = (disconnect connected_session, Inl CDPConnectionError)"
  using send_command_not_connected [of new_session "''Runtime.enable''" None]
        send_command_not_connected [of "disconnect connected_session" "''Runtime.enable''" None]
  by (simp add: new_session_def disconnect_def)

text \<open>
  C7. When the time has passed and the call's future is still waiting (no reply has
  completed it), the call fails with CDPConnectionError and the pending table holds no
  entry for its message id afterwards; until then the call stays suspended.
\<close>

theorem send_command_timeout:
  assumes "futures s ! future = Waiting"
  shows "\<exists>s'. send_command_wait s msg_id future True = Some (s', Inl CDPConnectionError)
             \<and> pending_commands s' msg_id = None
             \<and> (\<forall>k. k \<noteq> msg_id \<longrightarrow> pending_commands s' k = pending_commands s k)"
  using assms by (simp add: send_command_wait_def)

theorem send_command_timeout_witness:
  "snd (send_command_begin connected_session ''Page.enable'' None) = Inr (1, 0)
   \<and> futures awaiting_session ! 0 = Waiting
   \<and> pending_commands awaiting_session 1 = Some 0
   \<and> (\<exists>s'. send_command_wait awaiting_session 1 0 True = Some (s', Inl CDPConnectionError)
           \<and> pending_commands s' 1 = None)"
  using send_command_timeout [of awaiting_session 0 1]
  by (simp add: awaiting_session_def session_eval)

text \<open>
  C2, as stated, fails: \<^verbatim>\<open>disconnect\<close> completes no call. After \<^verbatim>\<open>send_command\<close> has
  registered request 1 and \<^verbatim>\<open>disconnect\<close> has run, the call's future is still waiting
  and the call is still suspended.
\<close>

theorem disconnect_leaves_call_waiting:
  "snd (send_command_begin connected_session ''Page.enable'' None) = Inr (1, 0)
   \<and> futures awaiting_session ! 0 = Waiting
   \<and> futures (disconnect awaiting_session) ! 0 = Waiting
   \<and> send_command_wait (disconnect awaiting_session) 1 0 False = None"
  by (simp add: awaiting_session_def session_eval)

text \<open>
  C2, amended. A call completes at most once: over any sequence of session actions a
  future that is done (result, exception or cancelled) keeps its state. \<^verbatim>\<open>disconnect\<close>
  empties the pending table and completes no future, and no frame is received after it;
  a call still waiting then stays suspended until its own timeout, which fails it with
  CDPConnectionError.
\<close>

theorem send_command_completes_at_most_once:
  "(future < length (futures s) \<and> futures s ! future \<noteq> Waiting \<longrightarrow>
      futures (run s actions) ! future = futures s ! future)
   \<and> pending_commands (disconnect s) = Map.empty
   \<and> futures (disconnect s) = futures s
   \<and> receive_loop (disconnect s) frames = disconnect s
   \<and> (futures s ! future = Waiting \<longrightarrow>
        send_command_wait (disconnect s) msg_id future False = None
      \<and> (\<exists>s'. send_command_wait (disconnect s) msg_id future True
                 = Some (s', Inl CDPConnectionError)))"
proof -
  have "recv_task (disconnect s) \<noteq> Some Running" by (simp add: disconnect_def)
  then have "receive_loop (disconnect s) frames = disconnect s"
    by (rule receive_loop_not_running)
  then show ?thesis
    using run_keeps_done [of future s actions]
    by (simp add: disconnect_def send_command_wait_def)
qed

theorem send_command_completes_at_most_once_witness:
  "0 < length (futures answered_session)
   \<and> futures answered_session ! 0 = Result (JObj [])
   \<and> futures (run answered_session
                 [Receive (Text (JObj [(''id'', JInt 1), (''error'', JObj [])])),
                  Wait 1 0 True, Disconnect]) ! 0 = Result (JObj [])
   \<and> futures awaiting_session ! 0 = Waiting
   \<and> send_command_wait (disconnect awaiting_session) 1 0 False = None
   \<and> (\<exists>s'. send_command_wait (disconnect awaiting_session) 1 0 True
              = Some (s', Inl CDPConnectionError))"
  using send_command_completes_at_most_once
          [of 0 answered_session
              "[Receive (Text (JObj [(''id'', JInt 1), (''error'', JObj [])])),
                Wait 1 0 True, Disconnect]" "[]" 1]
        send_command_completes_at_most_once [of 0 awaiting_session "[]" "[]" 1]
  by (simp add: answered_session_def awaiting_session_def session_eval)

section \<open>Log events: proofs\<close>

lemma absent_or_str_get:
  "absent_or_str d k \<Longrightarrow> dict_get d k (JStr dflt) = JStr (str_at d k dflt)"
  by (auto simp: absent_or_str_def dict_get_def str_at_def split: option.splits json.splits)

lemma absent_or_int_get:
  "absent_or_int d k \<Longrightarrow> dict_get d k (JInt dflt) = JInt (int_at d k dflt)"
  by (auto simp: absent_or_int_def dict_get_def int_at_def split: option.splits json.splits)

lemma typed_frame_format:
  "typed_frame f \<Longrightarrow> format_frame f = Some (stack_line f)"
  by (auto simp: typed_frame_def format_frame_def stack_line_def absent_or_str_get
        absent_or_int_get split: json.splits)

lemma typed_frames_format:
  "\<forall>f \<in> set frames. typed_frame f \<Longrightarrow> format_lines frames = Some (map stack_line frames)"
  by (induction frames) (simp_all add: typed_frame_format)

lemma typed_frame_source:
  "typed_frame (JObj d) \<Longrightarrow>
   source_of_frame (JObj d) =
     Some \<lparr>sl_url = str_at d ''url'' [], sl_line = int_at d ''lineNumber'' 0,
           sl_column = int_at d ''columnNumber'' 0\<rparr>"
  by (simp add: typed_frame_def source_of_frame_def absent_or_str_get absent_or_int_get)

lemmas log_eval =
  from_exception_thrown_def format_stack_trace_def format_frame_def source_of_frame_def
  dict_get_def show_int_def digit_char_def in_datetime_range_def example_exception_def
  example_details_def example_exc_def example_stack_trace_def example_call_frame_def

text \<open>
  C5, as stated, fails on the format of a stack line: the source writes a space between
  the function name and the opening parenthesis. On the payload of the repository's own
  test the stack is \<^verbatim>\<open>"    at myFunc (http://localhost:3000/app.js:10:5)"\<close>, not the
  line of the specification.
\<close>

theorem stack_line_has_space:
  "map_option stack (from_exception_thrown (JObj example_exception) None)
     = Some (Some ''    at myFunc (http://localhost:3000/app.js:10:5)'')
   \<and> map_option stack (from_exception_thrown (JObj example_exception) None)
     \<noteq> Some (Some (spec_stack_line ''myFunc'' ''http://localhost:3000/app.js'' 10 5))"
  by (simp add: log_eval spec_stack_line_def)

text \<open>
  C5, amended. For a \<^verbatim>\<open>Runtime.exceptionThrown\<close> payload whose members have their
  protocol types, \<^verbatim>\<open>from_exception_thrown\<close> gives a log event of level error and kind
  exception; its text is the exception's description, or without a description its value,
  or without both \<^verbatim>\<open>"Unknown exception"\<close>. Without call frames there is no source
  location and no stack; with call frames the first frame gives the source location and
  the stack is the lines \<^verbatim>\<open>"    at <function> (<url>:<line>:<col>)"\<close> of the frames joined
  by newlines, a frame without a \<^verbatim>\<open>functionName\<close> member shown as \<^verbatim>\<open>(anonymous)\<close>.
\<close>

theorem from_exception_thrown_normalises:
  assumes details: "dict_get ev ''exceptionDetails'' (JObj []) = JObj details"
    and exc: "dict_get details ''exception'' (JObj []) = JObj exc"
    and st: "dict_get details ''stackTrace'' (JObj []) = JObj st"
    and frames: "dict_get st ''callFrames'' (JArr []) = JArr frames"
    and typed: "\<forall>f \<in> set frames. typed_frame f"
    and tm: "parse_cdp_timestamp (dict_get ev ''timestamp'' JNull) = Some t"
    and ctx: "opt_int_field (dict_get details ''executionContextId'' JNull) = Some ctx"
    and ds: "absent_or_str exc ''description''"
    and vl: "map_of exc ''description'' = None \<longrightarrow> absent_or_str exc ''value''"
  shows "from_exception_thrown (JObj ev) tgt =
           Some \<lparr>ts = t, level = ERROR, kind = EXCEPTION,
                 le_text = (case map_of exc ''description'' of
                              Some d \<Rightarrow> str_at exc ''description'' []
                            | None \<Rightarrow> str_at exc ''value'' ''Unknown exception''),
                 args = [],
                 source = (case frames of [] \<Rightarrow> None | f # _ \<Rightarrow> Some (source_at f)),
                 stack = (case frames of [] \<Rightarrow> None
                          | _ # _ \<Rightarrow> Some (join_lines (map stack_line frames))),
                 target = tgt, execution_context_id = ctx\<rparr>"
proof -
  have tx: "str_field (dict_get exc ''description''
                 (dict_get exc ''value'' (JStr ''Unknown exception'')))
             = Some (case map_of exc ''description'' of
                       Some d \<Rightarrow> str_at exc ''description'' []
                     | None \<Rightarrow> str_at exc ''value'' ''Unknown exception'')"
    using ds vl
    by (auto simp: absent_or_str_def dict_get_def str_at_def split: option.splits json.splits)
  show ?thesis
  proof (cases frames)
    case Nil
    with details exc st frames tm ctx tx show ?thesis
      by (simp add: from_exception_thrown_def)
  next
    case (Cons f rest)
    with typed have tf: "typed_frame f" by simp
    then obtain d where d: "f = JObj d"
      by (auto simp: typed_frame_def split: json.splits)
    from tf d have src: "source_of_frame f = Some (source_at f)"
      by (simp add: typed_frame_source source_at_def)
    from typed Cons have "format_lines (f # rest) = Some (map stack_line (f # rest))"
      by (intro typed_frames_format) simp
    then have fmt: "format_stack_trace (f # rest) = Some (join_lines (map stack_line (f # rest)))"
      by (simp only: format_stack_trace_def option.map)
    from Cons details exc st frames tm ctx tx src fmt show ?thesis
      by (simp add: from_exception_thrown_def)
  qed
qed


theorem from_exception_thrown_normalises_witness:
  "typed_frame example_call_frame
   \<and> from_exception_thrown (JObj example_exception) None =
       Some \<lparr>ts = AtMillis 1702828800000, level = ERROR, kind = EXCEPTION,
             le_text = ''Error: Something failed'', args = [],
             source = Some \<lparr>sl_url = ''http://localhost:3000/app.js'', sl_line = 10,
                            sl_column = 5\<rparr>,
             stack = Some ''    at myFunc (http://localhost:3000/app.js:10:5)'',
             target = None, execution_context_id = Some 1\<rparr>
   \<and> from_exception_thrown
         (JObj [(''exceptionDetails'',
                 JObj [(''exception'', JObj [(''value'', JStr ''Uncaught string error'')])])])
         None =
       Some \<lparr>ts = Now, level = ERROR, kind = EXCEPTION,
             le_text = ''Uncaught string error'', args = [], source = None, stack = None,
             target = None, execution_context_id = None\<rparr>"
  using from_exception_thrown_normalises
          [of example_exception example_details example_exc example_stack_trace
              "[example_call_frame]" "AtMillis 1702828800000" "Some 1" None]
        from_exception_thrown_normalises
          [of "[(''exceptionDetails'',
                 JObj [(''exception'', JObj [(''value'', JStr ''Uncaught string error'')])])]"
              "[(''exception'', JObj [(''value'', JStr ''Uncaught string error'')])]"
              "[(''value'', JStr ''Uncaught string error'')]" "[]" "[]" Now None None]
  by (simp add: log_eval typed_frame_def absent_or_str_def absent_or_int_def)

section \<open>Network correlator: proofs\<close>

lemma unfiltered_type: "unfiltered opts \<Longrightarrow> type_excluded opts v = Some False"
  by (auto simp: unfiltered_def type_excluded_def)

lemma unfiltered_status: "unfiltered opts \<Longrightarrow> status_excluded opts v = Some False"
  by (auto simp: unfiltered_def status_excluded_def)

lemma stream_network_from_append:
  "stream_network_from opts tgt p (xs @ ys) =
     (case stream_network_from opts tgt p xs of
        (o1, None) \<Rightarrow> (o1, None)
      | (o1, Some p1) \<Rightarrow>
          (case stream_network_from opts tgt p1 ys of (o2, final) \<Rightarrow> (o1 @ o2, final)))"
proof (induction xs arbitrary: p)
  case Nil
  then show ?case by (simp split: prod.splits)
next
  case (Cons x xs)
  show ?case
  proof (cases "stream_network_step opts tgt p x")
    case None
    then show ?thesis by simp
  next
    case (Some r)
    obtain p' out where r: "r = (p', out)" by (cases r)
    show ?thesis
      using Some r Cons.IH [of p']
      by (auto split: prod.splits option.splits)
  qed
qed

lemma request_step:
  assumes "unfiltered opts" "typed_request req R U"
  shows "\<exists>w info. stream_network_step opts tgt p req = Some (p(JStr R \<mapsto> info), [w])
                 \<and> w_kind w = REQUEST \<and> w_url w = U"
proof -
  from assms(2) obtain ev ps rq where
    e: "req = JObj ev" "dict_get ev ''method'' (JStr []) = JStr ''Network.requestWillBeSent''"
       "dict_get ev ''params'' (JObj []) = JObj ps"
       "map_of ps ''requestId'' = Some (JStr R)"
       "\<not> py_truthy (dict_get ps ''redirectResponse'' JNull)"
       "opt_str_field (dict_get ps ''type'' JNull) \<noteq> None"
       "opt_str_field (dict_get ps ''frameId'' JNull) \<noteq> None"
       "parse_cdp_timestamp (dict_get ps ''timestamp'' JNull) \<noteq> None"
       "dict_get ps ''request'' (JObj []) = JObj rq"
       "map_of rq ''url'' = Some (JStr U)"
       "opt_str_field (dict_get rq ''method'' JNull) \<noteq> None"
    by (auto simp: typed_request_def split: json.splits)
  from e(4) have rid: "dict_get ps ''requestId'' (JStr []) = JStr R"
    "dict_get ps ''requestId'' JNull = JStr R" by (simp_all add: dict_get_def)
  from e(10) have url: "dict_get rq ''url'' (JStr []) = JStr U" by (simp add: dict_get_def)
  from assms(1) have inc: "include_requests opts" by (simp add: unfiltered_def)
  show ?thesis
    using e rid url inc unfiltered_type [OF assms(1)]
    by (auto simp: stream_network_step_def from_request_will_be_sent_def Let_def)
qed

lemma response_step:
  assumes "unfiltered opts" "typed_response resp R n V"
  shows "\<exists>w. stream_network_step opts tgt p resp = Some (p(JStr R := None), [w])
            \<and> w_kind w = RESPONSE \<and> w_status w = Some n \<and> w_url w = V"
proof -
  from assms(2) obtain ev ps rs where
    e: "resp = JObj ev" "dict_get ev ''method'' (JStr []) = JStr ''Network.responseReceived''"
       "dict_get ev ''params'' (JObj []) = JObj ps"
       "map_of ps ''requestId'' = Some (JStr R)"
       "opt_str_field (dict_get ps ''type'' JNull) \<noteq> None"
       "opt_str_field (dict_get ps ''frameId'' JNull) \<noteq> None"
       "parse_cdp_timestamp (dict_get ps ''timestamp'' JNull) \<noteq> None"
       "dict_get ps ''response'' (JObj []) = JObj rs"
       "map_of rs ''status'' = Some (JInt n)"
       "dict_get rs ''url'' (JStr []) = JStr V"
       "opt_str_field (dict_get rs ''mimeType'' JNull) \<noteq> None"
    by (auto simp: typed_response_def split: json.splits)
  from e(4) have rid: "dict_get ps ''requestId'' (JStr []) = JStr R"
    "dict_get ps ''requestId'' JNull = JStr R" by (simp_all add: dict_get_def)
  from e(9) have st: "dict_get rs ''status'' (JInt 0) = JInt n"
    "dict_get rs ''status'' JNull = JInt n" by (simp_all add: dict_get_def)
  from assms(1) have inc: "include_responses opts" by (simp add: unfiltered_def)
  show ?thesis
    using e rid st inc unfiltered_type [OF assms(1)] unfiltered_status [OF assms(1)]
    by (auto simp: stream_network_step_def from_response_received_def Let_def)
qed

lemmas network_eval =
  stream_network_def stream_network_step_def from_request_will_be_sent_def
  from_response_received_def from_loading_failed_def type_excluded_def status_excluded_def
  default_options_def example_request_def example_response_def example_failure_def
  example_failure_params_def dict_get_def Let_def unfiltered_def typed_request_def
  typed_response_def

text \<open>
  C3, as stated, fails on the url of the response event: it is the url of the response
  payload, not the url recalled from the request. For the request of \<^verbatim>\<open>http://x/a\<close> under
  id R followed by the 404 response under id R whose own url is \<^verbatim>\<open>http://x/b\<close>, the
  response event has url \<^verbatim>\<open>http://x/b\<close>.
\<close>

theorem response_url_is_not_recalled:
  "map w_kind (fst (stream_network default_options None [example_request, example_response]))
     = [REQUEST, RESPONSE]
   \<and> map w_status (fst (stream_network default_options None [example_request, example_response]))
     = [None, Some 404]
   \<and> map w_url (fst (stream_network default_options None [example_request, example_response]))
     = [''http://x/a'', ''http://x/b'']
   \<and> map w_url (fst (stream_network default_options None [example_request, example_response]))
     \<noteq> [''http://x/a'', ''http://x/a'']"
  by (simp add: network_eval)

text \<open>
  C3, amended. With everything included and no filter, let a stream hold a typed
  \<^verbatim>\<open>requestWillBeSent\<close> with request id R and url U and no redirect response, later a
  typed \<^verbatim>\<open>responseReceived\<close> with request id R and status 404, and around them events
  on which the correlator does not raise. Then the correlator yields, at the place of the
  request, a request event with url U, and after everything before it, at the place of the
  response, a response event with status 404 and the url of the response payload; after
  the response the table of requests in flight has no entry for R.
\<close>

theorem request_then_response:
  assumes opts: "unfiltered opts"
    and req: "typed_request req R U"
    and resp: "typed_response resp R 404 V"
    and run: "stream_network opts tgt (before @ [req] @ between) = (outs, Some table)"
  shows "\<exists>w_req w_resp out2 table'.
           outs = fst (stream_network opts tgt before) @ [w_req] @ out2
         \<and> w_kind w_req = REQUEST \<and> w_url w_req = U
         \<and> stream_network opts tgt (before @ [req] @ between @ [resp])
             = (outs @ [w_resp], Some table')
         \<and> w_kind w_resp = RESPONSE \<and> w_status w_resp = Some 404 \<and> w_url w_resp = V
         \<and> table' (JStr R) = None"
proof -
  obtain o1 f1 where b: "stream_network_from opts tgt Map.empty before = (o1, f1)"
    by (cases "stream_network_from opts tgt Map.empty before")
  from run b obtain p1 where f1: "f1 = Some p1"
    by (cases f1) (auto simp: stream_network_def stream_network_from_append)
  from request_step [OF opts req, of tgt p1] obtain w_req info where
    rq: "stream_network_step opts tgt p1 req = Some (p1(JStr R \<mapsto> info), [w_req])"
        "w_kind w_req = REQUEST" "w_url w_req = U" by blast
  obtain o2 f2 where m: "stream_network_from opts tgt (p1(JStr R \<mapsto> info)) between = (o2, f2)"
    by (cases "stream_network_from opts tgt (p1(JStr R \<mapsto> info)) between")
  from run b f1 rq m have outs: "outs = o1 @ [w_req] @ o2" and f2: "f2 = Some table"
    by (auto simp: stream_network_def stream_network_from_append)
  from response_step [OF opts resp, of tgt table] obtain w_resp where
    rs: "stream_network_step opts tgt table resp = Some (table(JStr R := None), [w_resp])"
        "w_kind w_resp = RESPONSE" "w_status w_resp = Some 404" "w_url w_resp = V" by blast
  have full: "stream_network opts tgt (before @ [req] @ between @ [resp])
               = (outs @ [w_resp], Some (table(JStr R := None)))"
    using b f1 rq m f2 outs rs
    by (simp add: stream_network_def stream_network_from_append)
  from outs b have "outs = fst (stream_network opts tgt before) @ [w_req] @ o2"
    by (simp add: stream_network_def)
  with rq rs full show ?thesis by auto
qed


theorem request_then_response_witness:
  "unfiltered default_options
   \<and> typed_request example_request ''R'' ''http://x/a''
   \<and> typed_response example_response ''R'' 404 ''http://x/b''
   \<and> map w_kind (fst (stream_network default_options None
                        [example_request, JObj example_failure, example_response]))
       = [REQUEST, FAILED, RESPONSE]
   \<and> (\<exists>table. snd (stream_network default_options None
                      [example_request, JObj example_failure, example_response]) = Some table
              \<and> table (JStr ''R'') = None)"
  using request_then_response
          [of default_options example_request "''R''" "''http://x/a''" example_response
              "''http://x/b''" None "[]" "[JObj example_failure]"
              "fst (stream_network default_options None [example_request, JObj example_failure])"
              "the (snd (stream_network default_options None
                           [example_request, JObj example_failure]))"]
  by (simp add: network_eval)

text \<open>
  C6. With failures included and no resource-type filter, a typed
  \<^verbatim>\<open>Network.loadingFailed\<close> event whose request id has no entry in the table of requests
  in flight does not raise: the correlator yields one failed event with empty url, no
  method and no frame id, carrying the failure's error text, and the table is as before.
\<close>

theorem loading_failed_without_request:
  assumes opts: "include_failures opts"
                "resource_types opts = None \<or> resource_types opts = Some {}"
    and ev: "dict_get ev ''method'' (JStr []) = JStr ''Network.loadingFailed''"
            "dict_get ev ''params'' (JObj []) = JObj p"
    and key: "request_key (dict_get p ''requestId'' (JStr [])) = Some k"
             "pending_requests k = None"
    and typed: "opt_str_field (dict_get p ''requestId'' JNull) = Some rid"
               "opt_str_field (dict_get p ''type'' JNull) = Some rt"
               "opt_str_field (dict_get p ''errorText'' JNull) = Some et"
               "parse_cdp_timestamp (dict_get p ''timestamp'' JNull) = Some t"
  shows "stream_network_step opts tgt pending_requests (JObj ev) =
           Some (pending_requests,
                 [\<lparr>w_ts = t, w_kind = FAILED, w_url = [], w_method = None, w_status = None,
                   w_resource_type = rt, w_redirect_url = None, w_element = None,
                   w_target = tgt, w_request_id = rid, w_error_text = et,
                   w_mime_type = None, w_frame_id = None\<rparr>])"
proof -
  from opts(2) have ty: "type_excluded opts (dict_get p ''type'' (JStr [])) = Some False"
    by (auto simp: type_excluded_def)
  from key(2) have same: "pending_requests(k := None) = pending_requests" by auto
  show ?thesis
    using opts(1) ev key typed ty same
    by (simp add: stream_network_step_def from_loading_failed_def Let_def)
qed


theorem loading_failed_without_request_witness:
  "include_failures default_options
   \<and> resource_types default_options = None
   \<and> request_key (dict_get example_failure_params ''requestId'' (JStr [])) = Some (JStr ''Q'')
   \<and> opt_str_field (dict_get example_failure_params ''errorText'' JNull)
       = Some (Some ''net::ERR_FAILED'')
   \<and> parse_cdp_timestamp (dict_get example_failure_params ''timestamp'' JNull) = Some Now
   \<and> stream_network_step default_options None Map.empty (JObj example_failure) =
     Some (Map.empty,
           [\<lparr>w_ts = Now, w_kind = FAILED, w_url = [], w_method = None, w_status = None,
             w_resource_type = Some ''XHR'', w_redirect_url = None, w_element = None,
             w_target = None, w_request_id = Some ''Q'',
             w_error_text = Some ''net::ERR_FAILED'', w_mime_type = None,
             w_frame_id = None\<rparr>])"
  using loading_failed_without_request
          [of default_options example_failure example_failure_params "JStr ''Q''" Map.empty
              "Some ''Q''" "Some ''XHR''" "Some ''net::ERR_FAILED''" Now None]
  by (simp add: network_eval)

end
